theory Spec2Isabelle
  imports Main
begin

section \<open>The wire formats and the request\<close>

text \<open>
  The development follows the latest \<open>router.go\<close> of the package (the one with cookies,
  redirects and the raw content type) together with \<open>error.go\<close>.

  The formats are untyped integer constants generated by \<open>iota\<close>; the functions that
  take a format take a plain \<open>int\<close>, so a value that is none of the three is possible
  and both \<open>Parse\<close> and \<open>output\<close> have a branch for it.
\<close>

definition formatJSON :: int where
  "formatJSON = 0"

definition formatXML :: int where
  "formatXML = 1"

definition formatFORM :: int where
  "formatFORM = 2"

text \<open>
  Of \<open>http.Request\<close> the package reads the header map (\<open>map[string][]string\<close>, read
  with the comma-ok form) and the body. \<open>Body\<close> is what \<open>ioutil.ReadAll(r.Body)\<close>
  returns: \<open>Inl\<close> the text of the read error, \<open>Inr\<close> the bytes.
\<close>

record Request =
  Header :: "string \<rightharpoonup> string list"
  Body :: "string + string"

text \<open>
  \<open>getFormat\<close>: the first header value that is one of the three recognised strings
  decides; a value that is none of them is skipped. The same function serves the
  \<open>Accept\<close> and the \<open>Content-Type\<close> header.
\<close>

fun getFormat_loop :: "string list \<Rightarrow> int \<times> bool" where
  "getFormat_loop [] = (formatJSON, False)"
| "getFormat_loop (format # header) =
     (if format = ''application/json'' then (formatJSON, True)
      else if format = ''application/xml'' then (formatXML, True)
      else if format = ''application/x-www-form-urlencoded'' then (formatFORM, True)
      else getFormat_loop header)"

definition getFormat :: "Request \<Rightarrow> string \<Rightarrow> int \<times> bool" where
  "getFormat r field =
     (case Header r field of
        Some header \<Rightarrow> getFormat_loop header
      | None \<Rightarrow> (formatJSON, False))"

section \<open>Errors\<close>

text \<open>
  A Go \<open>error\<close> is an interface value. Three kinds of error reach the package:
  its own \<open>Error500{Message}\<close>, whose \<open>StatusCode()\<close> is 500; the result of
  \<open>errors.New\<close>, which has no \<open>StatusCode\<close> method; and an error type of the
  application, which has the method or not (\<open>user_status\<close>), whose \<open>Error()\<close> text
  is \<open>user_text\<close>, which may implement the logging interface with a \<open>Parent()\<close>
  (\<open>user_parent\<close>, the parent as the log prints it; the interface itself is declared
  outside the files at hand) and which carries data of its own.
\<close>

datatype 'u error =
    Error500 (Message: string)
  | ErrorsNew string
  | UserError (user_status: "int option") (user_text: string) (user_parent: "string option") 'u

definition NewError500 :: "'u error" where
  "NewError500 = Error500 ''an unexpected error occured, please contact an administrator''"

fun Error_text :: "'u error \<Rightarrow> string" where
  "Error_text (Error500 m) = m"
| "Error_text (ErrorsNew s) = s"
| "Error_text (UserError sc t pa u) = t"

text \<open>
  The type assertion \<open>err.(Error)\<close> succeeds exactly when the error has a
  \<open>StatusCode() int\<close> method; \<open>StatusCode\<close> gives its value then.
\<close>

fun StatusCode :: "'u error \<Rightarrow> int option" where
  "StatusCode (Error500 m) = Some 500"
| "StatusCode (ErrorsNew s) = None"
| "StatusCode (UserError sc t pa u) = sc"

fun Parent :: "'u error \<Rightarrow> string option" where
  "Parent (UserError sc t pa u) = pa"
| "Parent e = None"

section \<open>Decoding a body\<close>

text \<open>
  The target \<open>v interface{}\<close> of \<open>Parse\<close>, as \<open>parseForm\<close> tells the cases apart
  before it looks inside (\<open>reflect.ValueOf(v)\<close>, \<open>val.Type()\<close>, \<open>t.Kind() != reflect.Ptr\<close>,
  \<open>val.IsNil()\<close>): the nil interface, a value that is not a pointer, a nil pointer, or a
  pointer to a value of type \<open>'x\<close>.
\<close>

datatype 'x target = NilInterface | NonPointer | NilPointer | Pointer 'x

text \<open>
  A panic is an outcome of its own.
\<close>

datatype 'a outcome = Panic | Return 'a

text \<open>
  The standard library is a parameter of the model:
  \<^item> the two marshallers (\<open>Inl\<close> the text of the error, \<open>Inr\<close> the bytes) and the two
    unmarshallers (the error, if any, and the target as they leave it);
  \<^item> \<open>r.ParseForm()\<close> (\<open>Inl\<close> the text of the error, \<open>Inr\<close> the resulting
    \<open>r.PostForm\<close>, a Go map from a name to its values, as the list of its entries in
    the order a \<open>range\<close> statement happens to visit them);
  \<^item> \<open>strings.ToLower\<close>;
  \<^item> of the package \<open>reflect\<close>, on the value a pointer points to:
    \<open>Value.FieldByNameFunc\<close>, which panics on a value that is no struct and else
    gives the zero \<open>Value\<close> (\<open>None\<close>) or a field, here the index sequence
    \<open>StructField.Index\<close> of the field; \<open>field.Kind() == reflect.String\<close>; and
    \<open>field.SetString\<close>, which panics on a field that cannot be set and else gives
    the value with the field set.
\<close>

record ('d, 'x) stdlib =
  json_Marshal :: "'d \<Rightarrow> string + string"
  xml_Marshal :: "'d \<Rightarrow> string + string"
  json_Unmarshal :: "string \<Rightarrow> 'x target \<Rightarrow> string option \<times> 'x target"
  xml_Unmarshal :: "string \<Rightarrow> 'x target \<Rightarrow> string option \<times> 'x target"
  ParseForm :: "Request \<Rightarrow> string + (string \<times> string list) list"
  ToLower :: "string \<Rightarrow> string"
  FieldByNameFunc :: "'x \<Rightarrow> (string \<Rightarrow> bool) \<Rightarrow> nat list option outcome"
  Kind_String :: "'x \<Rightarrow> nat list \<Rightarrow> bool"
  SetString :: "'x \<Rightarrow> nat list \<Rightarrow> string \<Rightarrow> 'x outcome"

text \<open>
  The loop of \<open>parseForm\<close> over the form. An entry with no value is skipped. For any
  other entry the field is looked up with the function that compares the lower-case
  forms of the key and of a field name; the zero \<open>Value\<close> is of kind \<open>Invalid\<close>, not
  \<open>String\<close>, and is skipped as a field of another kind is; a field of kind string is
  set to the first value of the entry.
\<close>

fun parseForm_loop :: "('d, 'x) stdlib \<Rightarrow> (string \<times> string list) list \<Rightarrow> 'x \<Rightarrow> 'x outcome" where
  "parseForm_loop lib [] val = Return val"
| "parseForm_loop lib ((k, []) # form) val = parseForm_loop lib form val"
| "parseForm_loop lib ((k, v0 # v) # form) val =
     (case FieldByNameFunc lib val (\<lambda>s. ToLower lib k = ToLower lib s) of
        Panic \<Rightarrow> Panic
      | Return None \<Rightarrow> parseForm_loop lib form val
      | Return (Some field) \<Rightarrow>
          if Kind_String lib val field
          then (case SetString lib val field v0 of
                  Panic \<Rightarrow> Panic
                | Return val' \<Rightarrow> parseForm_loop lib form val')
          else parseForm_loop lib form val)"

text \<open>
  \<open>parseForm\<close>: \<open>val.Type()\<close> panics on the zero \<open>Value\<close> that \<open>reflect.ValueOf\<close>
  gives for the nil interface; a target that is no pointer, or a nil pointer, is the
  error of the function; else the loop runs on \<open>val.Elem()\<close>.
\<close>

fun parseForm ::
  "('d, 'x) stdlib \<Rightarrow> (string \<times> string list) list \<Rightarrow> 'x target \<Rightarrow> (string option \<times> 'x target) outcome" where
  "parseForm lib form NilInterface = Panic"
| "parseForm lib form NonPointer = Return (Some ''Cannot parse form to non-pointer types'', NonPointer)"
| "parseForm lib form NilPointer = Return (Some ''Cannot parse form to non-pointer types'', NilPointer)"
| "parseForm lib form (Pointer val) =
     (case parseForm_loop lib form val of
        Panic \<Rightarrow> Panic
      | Return val' \<Rightarrow> Return (None, Pointer val'))"

text \<open>
  The end of \<open>Parse\<close>: the test of the function's variable \<open>err\<close>.
\<close>

definition Parse_return :: "string option \<Rightarrow> 'x target \<Rightarrow> ('u error option \<times> 'x target) outcome" where
  "Parse_return err v =
     (case err of
        Some e \<Rightarrow> Return (Some (Error500 (''failed to parse body: '' @ e)), v)
      | None \<Rightarrow> Return (None, v))"

text \<open>
  \<open>Parse\<close>. The function declares \<open>var err error\<close>, which is nil. In the JSON and in
  the XML branch \<open>chunk, err := ioutil.ReadAll(r.Body)\<close> is a short variable declaration
  inside the block of the branch: it declares a new \<open>err\<close> local to the block, and
  \<open>err = json.Unmarshal(chunk, v)\<close> assigns that one. The test after the branches reads
  the function's \<open>err\<close>, which these two branches never assign (\<open>err_block\<close> is the
  variable of the block, \<open>err\<close> the one of the function). The FORM branch assigns the
  function's \<open>err\<close>.
\<close>

definition Parse :: "('d, 'x) stdlib \<Rightarrow> Request \<Rightarrow> 'x target \<Rightarrow> ('u error option \<times> 'x target) outcome" where
  "Parse lib r v =
     (let outputFormat = fst (getFormat r ''Accept'');
          (inputFormat0, found) = getFormat r ''Content-Type'';
          inputFormat = (if found = False then outputFormat else inputFormat0);
          err = None
      in if inputFormat = formatJSON then
           (case Body r of
              Inl read_err \<Rightarrow> Return (Some (Error500 ''failed to read body''), v)
            | Inr chunk \<Rightarrow>
                (let (err_block, v') = json_Unmarshal lib chunk v in Parse_return err v'))
         else if inputFormat = formatXML then
           (case Body r of
              Inl read_err \<Rightarrow> Return (Some (Error500 ''failed to read body''), v)
            | Inr chunk \<Rightarrow>
                (let (err_block, v') = xml_Unmarshal lib chunk v in Parse_return err v'))
         else if inputFormat = formatFORM then
           (case ParseForm lib r of
              Inl e \<Rightarrow> Parse_return (Some e) v
            | Inr PostForm \<Rightarrow>
                (case parseForm lib PostForm v of
                   Panic \<Rightarrow> Panic
                 | Return (err', v') \<Rightarrow> Parse_return err' v'))
         else Return (Some (ErrorsNew ''unknown output format''), v))"

section \<open>Writing a response\<close>

text \<open>
  The cookie struct handed to \<open>http.SetCookie\<close> (the fields the package sets).
\<close>

record Cookie =
  Name :: string
  Value :: string
  Path :: string
  MaxAge :: int

text \<open>
  The \<open>http.ResponseWriter\<close>: the header map, the cookies handed to
  \<open>http.SetCookie\<close> in the order of the calls (the library turns each into a
  \<open>Set-Cookie\<close> header line), the status code of \<open>WriteHeader\<close> (\<open>None\<close> until it
  is called), the bytes handed to \<open>Write\<close>, and the error the transport answers a
  \<open>Write\<close> with.
\<close>

record ResponseWriter =
  headers :: "string \<rightharpoonup> string list"
  cookies :: "Cookie list"
  status :: "int option"
  written :: string
  write_error :: "string option"

definition Header_Set :: "ResponseWriter \<Rightarrow> string \<Rightarrow> string \<Rightarrow> ResponseWriter" where
  "Header_Set w key val = w\<lparr>headers := (headers w)(key \<mapsto> [val])\<rparr>"

definition Header_Add :: "ResponseWriter \<Rightarrow> string \<Rightarrow> string \<Rightarrow> ResponseWriter" where
  "Header_Add w key val =
     w\<lparr>headers := (headers w)(key \<mapsto> (case headers w key of None \<Rightarrow> [val] | Some vs \<Rightarrow> vs @ [val]))\<rparr>"

definition SetCookie :: "ResponseWriter \<Rightarrow> Cookie \<Rightarrow> ResponseWriter" where
  "SetCookie w c = w\<lparr>cookies := cookies w @ [c]\<rparr>"

text \<open>
  Only the first \<open>WriteHeader\<close> counts, and a \<open>Write\<close> before any \<open>WriteHeader\<close>
  sends status 200 first. The status code is recorded as the handler gives it; what a
  server does with a code that is no HTTP status is outside the model.
\<close>

definition WriteHeader :: "ResponseWriter \<Rightarrow> int \<Rightarrow> ResponseWriter" where
  "WriteHeader w code = (if status w = None then w\<lparr>status := Some code\<rparr> else w)"

definition Write :: "ResponseWriter \<Rightarrow> string \<Rightarrow> string option \<times> ResponseWriter" where
  "Write w chunk =
     (let w1 = WriteHeader w 200
      in (write_error w1, w1\<lparr>written := written w1 @ chunk\<rparr>))"

text \<open>
  The status line the client receives: a handler that returns without having called
  \<open>WriteHeader\<close> or \<open>Write\<close> leaves the server to answer with status 200 and no body.
\<close>

definition wire_status :: "ResponseWriter \<Rightarrow> int" where
  "wire_status w = (case status w of None \<Rightarrow> 200 | Some code \<Rightarrow> code)"

text \<open>
  What a controller returns on success, \<open>interface{}\<close>, is inspected through three
  type assertions, each for an interface the value implements or does not:
  \<open>Resp\<close> (\<open>StatusCode()\<close> and \<open>Location()\<close>, both methods being required),
  \<open>ICookieSetter\<close> (\<open>GetCookies()\<close>, a map that may be nil; the list is the map in
  the order \<open>range\<close> visits its keys) and \<open>RespCType\<close> (\<open>ContentType()\<close> and
  \<open>Data()\<close>). \<open>content\<close> is the rest of the value.
\<close>

record 'a resp =
  as_Resp :: "(int \<times> string) option"
  as_ICookieSetter :: "(string \<times> string) list option option"
  as_RespCType :: "(string \<times> string) option"
  content :: 'a

text \<open>
  \<open>output\<close> (here \<open>output_fmt\<close>, the plain name being a keyword of the prover)
  marshals an error or a success value.
\<close>

datatype ('u, 'a) data = ErrorData "'u error" | RespData "'a resp"

definition outputContentType :: "ResponseWriter \<Rightarrow> int \<Rightarrow> string \<Rightarrow> string \<Rightarrow> string option \<times> ResponseWriter" where
  "outputContentType w code dat format =
     (let w1 = Header_Set w ''Content-Type'' format;
          w2 = WriteHeader w1 code
      in Write w2 dat)"

definition output_fmt :: "('d, 'x) stdlib \<Rightarrow> ResponseWriter \<Rightarrow> int \<Rightarrow> 'd \<Rightarrow> int \<Rightarrow> string option \<times> ResponseWriter" where
  "output_fmt lib w code dat format =
     (if format = formatJSON then
        (let w1 = Header_Set w ''Content-Type'' ''aplication/json''
         in case json_Marshal lib dat of
              Inl err \<Rightarrow> (Some err, w1)
            | Inr chunk \<Rightarrow> Write (WriteHeader w1 code) chunk)
      else if format = formatXML then
        (let w1 = Header_Set w ''Content-Type'' ''aplication/xml''
         in case xml_Marshal lib dat of
              Inl err \<Rightarrow> (Some err, w1)
            | Inr chunk \<Rightarrow> Write (WriteHeader w1 code) chunk)
      else (Some ''unknown output format'', w))"

section \<open>The handler\<close>

text \<open>
  The cookie of one name of the cookie map. \<open>cookies[name]\<close> of a Go map is the empty
  string for a name the map does not hold.
\<close>

definition map_index :: "(string \<times> string) list \<Rightarrow> string \<Rightarrow> string" where
  "map_index cs name = (case map_of cs name of None \<Rightarrow> [] | Some v \<Rightarrow> v)"

definition cookie_of :: "(string \<times> string) list \<Rightarrow> string \<Rightarrow> Cookie" where
  "cookie_of cs name =
     (if length (map_index cs name) = 0
      then \<lparr>Name = name, Value = ''nil'', Path = ''/'', MaxAge = - 1\<rparr>
      else \<lparr>Name = name, Value = map_index cs name, Path = ''/'', MaxAge = 24 * 60 * 60\<rparr>)"

fun setCookies_loop :: "(string \<times> string) list \<Rightarrow> string list \<Rightarrow> ResponseWriter \<Rightarrow> ResponseWriter" where
  "setCookies_loop cs [] w = w"
| "setCookies_loop cs (name # names) w = setCookies_loop cs names (SetCookie w (cookie_of cs name))"

text \<open>
  The lines the handler logs, without the time stamp of the logger.
\<close>

definition log_error :: "'u error \<Rightarrow> string" where
  "log_error err =
     (case Parent err of
        Some pa \<Rightarrow> ''error: '' @ Error_text err @ '', '' @ pa
      | None \<Rightarrow> ''error: '' @ Error_text err)"

definition log_failed :: "string \<Rightarrow> string option \<Rightarrow> string list" where
  "log_failed what err = (case err of None \<Rightarrow> [] | Some e \<Rightarrow> [what @ '' '' @ e])"

text \<open>
  \<open>handler fn\<close>, applied to the writer, the request and the path parameters: the writer
  as the handler leaves it, and the lines it logged. The controller is a function of
  the request and the parameters; the value it returns beside a non-nil error is not
  looked at.
\<close>

definition handler ::
  "(('u, 'a) data, 'x) stdlib \<Rightarrow> (Request \<Rightarrow> 'p \<Rightarrow> 'a resp \<times> 'u error option) \<Rightarrow>
     ResponseWriter \<Rightarrow> Request \<Rightarrow> 'p \<Rightarrow> ResponseWriter \<times> string list" where
  "handler lib fn w r p =
     (let outputFormat = fst (getFormat r ''Accept'');
          (resp, err) = fn r p
      in case err of
           Some e \<Rightarrow>
             (case StatusCode e of
                Some code \<Rightarrow>
                  (let (err3, w') = output_fmt lib w code (ErrorData e) outputFormat
                   in (w', log_error e # log_failed ''error while writing error:'' err3))
              | None \<Rightarrow>
                  (let (err2, w') = output_fmt lib w 500 (ErrorData NewError500) outputFormat
                   in (w', log_error e # log_failed ''error while writing error:'' err2)))
         | None \<Rightarrow>
             (let (statusCode, location) =
                    (case as_Resp resp of
                       Some (code, loc) \<Rightarrow> if code \<noteq> 0 then (code, loc) else (200, [])
                     | None \<Rightarrow> (200, []));
                  w1 = (case as_ICookieSetter resp of
                          Some (Some cs) \<Rightarrow> setCookies_loop cs (map fst cs) w
                        | Some None \<Rightarrow> w
                        | None \<Rightarrow> w);
                  w2 = (if location \<noteq> [] then Header_Add w1 ''Location'' location else w1);
                  (err', w3) =
                    (case as_RespCType resp of
                       Some (ctype, dat) \<Rightarrow> outputContentType w2 statusCode dat ctype
                     | None \<Rightarrow> output_fmt lib w2 statusCode (RespData resp) outputFormat)
              in (w3, log_failed ''error while writing data:'' err')))"

section \<open>Concrete inputs\<close>

text \<open>
  To evaluate the model at a concrete request, the parameter for the standard library
  needs a value. \<open>sample_lib\<close> is a small stand-in: its marshallers never fail and print
  the text of an error or the content of a value behind the name of the format; its
  JSON unmarshaller rejects every chunk but \<open>{}\<close> with the error of
  \<open>encoding/json\<close> for an input that ends early, and its XML unmarshaller every chunk
  but one element, with the error of \<open>encoding/xml\<close> for such an input; both leave
  the target alone. Its form is always empty, so its reflection is never asked; it finds
  no field.
\<close>

definition render :: "(unit, string) data \<Rightarrow> string" where
  "render d = (case d of ErrorData e \<Rightarrow> Error_text e | RespData v \<Rightarrow> content v)"

definition sample_lib :: "((unit, string) data, unit) stdlib" where
  "sample_lib =
     \<lparr>json_Marshal = (\<lambda>d. Inr (''json:'' @ render d)),
      xml_Marshal = (\<lambda>d. Inr (''xml:'' @ render d)),
      json_Unmarshal = (\<lambda>chunk v. (if chunk = ''{}'' then None else Some ''unexpected end of JSON input'', v)),
      xml_Unmarshal = (\<lambda>chunk v. (if chunk = ''<a></a>'' then None else Some ''XML syntax error on line 1: unexpected EOF'', v)),
      ParseForm = (\<lambda>r. Inr []),
      ToLower = (\<lambda>s. s),
      FieldByNameFunc = (\<lambda>val match. Return None),
      Kind_String = (\<lambda>val field. False),
      SetString = (\<lambda>val field s. Return val)\<rparr>"

text \<open>
  \<open>marking_lib\<close> is a second stand-in, for the questions which decoder ran and what
  \<open>r.ParseForm()\<close> makes of the request. Its unmarshallers write their name and the
  chunk into the target, a pointer to a string. Its \<open>ParseForm\<close> does what the one of
  \<open>net/http\<close> does with a request that has a body: it parses the first \<open>Content-Type\<close>
  value as a media type and returns the error of \<open>mime.ParseMediaType\<close> when the value
  is none (here for the value \<open>text/\<close>, a type with no subtype); for a media type other
  than the form type it leaves \<open>r.PostForm\<close> empty.
\<close>

definition marking_lib :: "((unit, string) data, string) stdlib" where
  "marking_lib =
     \<lparr>json_Marshal = (\<lambda>d. Inr (''json:'' @ render d)),
      xml_Marshal = (\<lambda>d. Inr (''xml:'' @ render d)),
      json_Unmarshal = (\<lambda>chunk v. (None, Pointer (''decoded as JSON: '' @ chunk))),
      xml_Unmarshal = (\<lambda>chunk v. (None, Pointer (''decoded as XML: '' @ chunk))),
      ParseForm = (\<lambda>r. case Header r ''Content-Type'' of
                          Some (ct # cts) \<Rightarrow>
                            if ct = ''text/'' then Inl ''mime: expected token after slash'' else Inr []
                        | Some [] \<Rightarrow> Inr []
                        | None \<Rightarrow> Inr []),
      ToLower = (\<lambda>s. s),
      FieldByNameFunc = (\<lambda>val match. Return None),
      Kind_String = (\<lambda>val field. False),
      SetString = (\<lambda>val field s. Return val)\<rparr>"

text \<open>
  A target (a pointer to a value this development does not look into), a writer nothing
  was written to, and a success value with no capability.
\<close>

definition sample_target :: "unit target" where
  "sample_target = Pointer ()"

definition newResponseWriter :: ResponseWriter where
  "newResponseWriter = \<lparr>headers = Map.empty, cookies = [], status = None, written = [], write_error = None\<rparr>"

definition plain_resp :: "string resp" where
  "plain_resp = \<lparr>as_Resp = None, as_ICookieSetter = None, as_RespCType = None, content = ''ok''\<rparr>"

text \<open>
  A request with the given \<open>Accept\<close> values and nothing else, a controller that fails
  with a given error, and one that succeeds with a given value.
\<close>

definition request_accepting :: "string list \<Rightarrow> Request" where
  "request_accepting hs = \<lparr>Header = [''Accept'' \<mapsto> hs], Body = Inr []\<rparr>"

definition controller_failing :: "unit error \<Rightarrow> Request \<Rightarrow> unit \<Rightarrow> string resp \<times> unit error option" where
  "controller_failing e r p = (plain_resp, Some e)"

definition controller_returning :: "string resp \<Rightarrow> Request \<Rightarrow> unit \<Rightarrow> string resp \<times> unit error option" where
  "controller_returning v r p = (v, None)"

text \<open>
  A success value with a cookie map of two entries, one of them to be deleted; a
  redirect with a raw content type; and the same redirect without the raw content type.
\<close>

definition cookie_resp :: "string resp" where
  "cookie_resp = plain_resp\<lparr>as_ICookieSetter := Some (Some [(''session'', ''abc''), (''old'', [])])\<rparr>"

definition raw_resp :: "string resp" where
  "raw_resp =
     \<lparr>as_Resp = Some (302, ''/login''),
      as_ICookieSetter = Some (Some [(''session'', ''abc''), (''old'', [])]),
      as_RespCType = Some (''text/plain'', ''hello''),
      content = ''ok''\<rparr>"

section \<open>Decoding: what \<open>Parse\<close> returns\<close>

text \<open>
  In the JSON branch, once the body is read, \<open>Parse\<close> returns nil whatever the
  unmarshaller says: the error lands in the variable of the block, and the test at the end
  of the function reads the variable of the function. The XML branch is written the same
  way.
\<close>

lemma Parse_unmarshal_error_dropped:
  assumes "getFormat r ''Content-Type'' = (formatJSON, True)" and "Body r = Inr chunk"
  shows "Parse lib r v = Return (None, snd (json_Unmarshal lib chunk v))"
  using assms by (simp add: Parse_def Parse_return_def split: prod.splits)

text \<open>
  Claim C1. A request whose body is malformed for the negotiated decode format makes
  \<open>Parse\<close> return an \<open>Error500\<close> whose message is \<open>failed to parse body: \<close> followed by
  the text of the unmarshal error. The code does not do so: for the request with
  \<open>Content-Type: application/json\<close> and the body \<open>{\<close>, which the unmarshaller rejects,
  \<open>Parse\<close> returns no error at all; and likewise for \<open>Content-Type: application/xml\<close>
  and the body \<open><a\<close>.
\<close>

theorem Parse_malformed_body_no_error:
  "json_Unmarshal sample_lib ''{'' sample_target = (Some ''unexpected end of JSON input'', sample_target) \<and>
   Parse sample_lib \<lparr>Header = [''Content-Type'' \<mapsto> [''application/json'']], Body = Inr ''{''\<rparr> sample_target
     = (Return (None, sample_target) :: (unit error option \<times> unit target) outcome) \<and>
   xml_Unmarshal sample_lib ''<a'' sample_target
     = (Some ''XML syntax error on line 1: unexpected EOF'', sample_target) \<and>
   Parse sample_lib \<lparr>Header = [''Content-Type'' \<mapsto> [''application/xml'']], Body = Inr ''<a''\<rparr> sample_target
     = (Return (None, sample_target) :: (unit error option \<times> unit target) outcome)"
  by (simp add: Parse_def Parse_return_def getFormat_def sample_lib_def formatJSON_def formatXML_def)

section \<open>Negotiation of the encode format\<close>

text \<open>
  The format \<open>getFormat\<close> finds is one of the three, and it is FORM exactly when the
  header holds the FORM string before any JSON or XML string.
\<close>

lemma getFormat_loop_range:
  "fst (getFormat_loop hs) = formatJSON \<or> fst (getFormat_loop hs) = formatXML \<or> fst (getFormat_loop hs) = formatFORM"
  by (induction hs) auto

lemma getFormat_loop_FORM:
  "(fst (getFormat_loop hs) = formatFORM) =
   (\<exists>pre post. hs = pre @ ''application/x-www-form-urlencoded'' # post \<and>
       ''application/json'' \<notin> set pre \<and> ''application/xml'' \<notin> set pre)"
proof (induction hs)
  case Nil
  show ?case by (simp add: formatJSON_def formatFORM_def)
next
  case (Cons h hs)
  show ?case
  proof (cases "h = ''application/json'' \<or> h = ''application/xml''")
    case True
    then have "fst (getFormat_loop (h # hs)) \<noteq> formatFORM"
      by (auto simp: formatJSON_def formatXML_def formatFORM_def)
    moreover have "\<not> (\<exists>pre post. h # hs = pre @ ''application/x-www-form-urlencoded'' # post \<and>
       ''application/json'' \<notin> set pre \<and> ''application/xml'' \<notin> set pre)"
    proof
      assume "\<exists>pre post. h # hs = pre @ ''application/x-www-form-urlencoded'' # post \<and>
       ''application/json'' \<notin> set pre \<and> ''application/xml'' \<notin> set pre"
      then obtain pre post where e: "h # hs = pre @ ''application/x-www-form-urlencoded'' # post"
        and n: "''application/json'' \<notin> set pre" "''application/xml'' \<notin> set pre" by blast
      show False
      proof (cases pre)
        case Nil
        with e True show False by auto
      next
        case (Cons a as)
        with e have "a = h" by simp
        with Cons n True show False by auto
      qed
    qed
    ultimately show ?thesis by simp
  next
    case False
    show ?thesis
    proof (cases "h = ''application/x-www-form-urlencoded''")
      case True
      have "h # hs = [] @ ''application/x-www-form-urlencoded'' # hs" using True by simp
      then have "\<exists>pre post. h # hs = pre @ ''application/x-www-form-urlencoded'' # post \<and>
       ''application/json'' \<notin> set pre \<and> ''application/xml'' \<notin> set pre"
        by (metis empty_iff list.set(1))
      then show ?thesis using True by simp
    next
      case F2: False
      have "(\<exists>pre post. h # hs = pre @ ''application/x-www-form-urlencoded'' # post \<and>
       ''application/json'' \<notin> set pre \<and> ''application/xml'' \<notin> set pre) =
         (\<exists>pre post. hs = pre @ ''application/x-www-form-urlencoded'' # post \<and>
       ''application/json'' \<notin> set pre \<and> ''application/xml'' \<notin> set pre)" (is "?L = ?R")
      proof
        assume ?L
        then obtain pre post where e: "h # hs = pre @ ''application/x-www-form-urlencoded'' # post"
          and n: "''application/json'' \<notin> set pre" "''application/xml'' \<notin> set pre" by blast
        show ?R
        proof (cases pre)
          case Nil
          with e F2 show ?thesis by simp
        next
          case (Cons a as)
          with e have "hs = as @ ''application/x-www-form-urlencoded'' # post" by simp
          moreover from Cons n have "''application/json'' \<notin> set as" "''application/xml'' \<notin> set as" by auto
          ultimately show ?thesis by blast
        qed
      next
        assume ?R
        then obtain pre post where e: "hs = pre @ ''application/x-www-form-urlencoded'' # post"
          and n: "''application/json'' \<notin> set pre" "''application/xml'' \<notin> set pre" by blast
        have "h # hs = (h # pre) @ ''application/x-www-form-urlencoded'' # post" using e by simp
        moreover have "''application/json'' \<notin> set (h # pre)" "''application/xml'' \<notin> set (h # pre)"
          using n False by auto
        ultimately show ?L by blast
      qed
      with Cons.IH False F2 show ?thesis by simp
    qed
  qed
qed

text \<open>
  Claim C2, as stated: negotiation over the \<open>Accept\<close> header never yields FORM. It
  does: the handler asks the same \<open>getFormat\<close> that serves \<open>Content-Type\<close>, and an
  \<open>Accept\<close> header whose first recognised value is the FORM string gives \<open>formatFORM\<close>.
\<close>

theorem Accept_negotiation_yields_FORM:
  "fst (getFormat \<lparr>Header = [''Accept'' \<mapsto> [''application/x-www-form-urlencoded'', ''application/json'']],
                   Body = Inr []\<rparr> ''Accept'') = formatFORM
   \<and> formatFORM \<noteq> formatJSON \<and> formatFORM \<noteq> formatXML"
  by (simp add: getFormat_def formatFORM_def formatJSON_def formatXML_def)

text \<open>
  Claim C2, amended. Negotiation over the \<open>Accept\<close> header yields JSON, XML or FORM;
  it yields FORM exactly when a value \<open>application/x-www-form-urlencoded\<close> stands before
  every JSON and XML value of the header; and FORM is refused where the response is
  encoded: \<open>output\<close> then leaves the writer as it is and returns the error
  \<open>unknown output format\<close>.
\<close>

theorem encode_negotiation_three_formats:
  "fst (getFormat r ''Accept'') \<in> {formatJSON, formatXML, formatFORM}
   \<and> (fst (getFormat r ''Accept'') = formatFORM) =
       (\<exists>pre post. Header r ''Accept'' = Some (pre @ ''application/x-www-form-urlencoded'' # post)
          \<and> ''application/json'' \<notin> set pre \<and> ''application/xml'' \<notin> set pre)
   \<and> output_fmt lib w code dat formatFORM = (Some ''unknown output format'', w)"
proof -
  have a: "fst (getFormat r ''Accept'') \<in> {formatJSON, formatXML, formatFORM}"
    using getFormat_loop_range by (auto simp: getFormat_def split: option.splits)
  have b: "(fst (getFormat r ''Accept'') = formatFORM) =
       (\<exists>pre post. Header r ''Accept'' = Some (pre @ ''application/x-www-form-urlencoded'' # post)
          \<and> ''application/json'' \<notin> set pre \<and> ''application/xml'' \<notin> set pre)"
  proof (cases "Header r ''Accept''")
    case None
    then show ?thesis by (simp add: getFormat_def formatJSON_def formatFORM_def)
  next
    case (Some hs)
    then show ?thesis using getFormat_loop_FORM [of hs] by (simp add: getFormat_def)
  qed
  have c: "output_fmt lib w code dat formatFORM = (Some ''unknown output format'', w)"
    by (simp add: output_fmt_def formatFORM_def formatJSON_def formatXML_def)
  from a b c show ?thesis by blast
qed

section \<open>Decoding when no \<open>Content-Type\<close> is recognised\<close>

text \<open>
  What \<open>getFormat\<close> answers, by the values of the header: nothing recognised, or a
  first recognised value behind values of no other format. And \<open>Parse\<close> when the
  \<open>Content-Type\<close> negotiation finds nothing, by the format of the \<open>Accept\<close> header.
\<close>

lemma getFormat_loop_unrecognised:
  assumes "''application/json'' \<notin> set hs" and "''application/xml'' \<notin> set hs"
    and "''application/x-www-form-urlencoded'' \<notin> set hs"
  shows "getFormat_loop hs = (formatJSON, False)"
  using assms by (induction hs) auto

lemma getFormat_loop_first_JSON:
  assumes "''application/xml'' \<notin> set pre" and "''application/x-www-form-urlencoded'' \<notin> set pre"
  shows "getFormat_loop (pre @ ''application/json'' # post) = (formatJSON, True)"
  using assms by (induction pre) auto

lemma getFormat_loop_first_XML:
  assumes "''application/json'' \<notin> set pre" and "''application/x-www-form-urlencoded'' \<notin> set pre"
  shows "getFormat_loop (pre @ ''application/xml'' # post) = (formatXML, True)"
  using assms by (induction pre) auto

lemma getFormat_loop_first_FORM:
  assumes "''application/json'' \<notin> set pre" and "''application/xml'' \<notin> set pre"
  shows "getFormat_loop (pre @ ''application/x-www-form-urlencoded'' # post) = (formatFORM, True)"
  using assms by (induction pre) auto

lemma getFormat_Content_Type_unrecognised:
  assumes "Header r ''Content-Type'' = None
         \<or> (\<exists>hs. Header r ''Content-Type'' = Some hs
              \<and> ''application/json'' \<notin> set hs \<and> ''application/xml'' \<notin> set hs
              \<and> ''application/x-www-form-urlencoded'' \<notin> set hs)"
  shows "getFormat r ''Content-Type'' = (formatJSON, False)"
  using assms getFormat_loop_unrecognised by (auto simp: getFormat_def)

lemma Parse_not_found:
  assumes "getFormat r ''Content-Type'' = (a, False)"
  shows "fst (getFormat r ''Accept'') = formatJSON \<Longrightarrow>
           Parse lib r v =
              (case Body r of
                 Inl read_err \<Rightarrow> Return (Some (Error500 ''failed to read body''), v)
               | Inr chunk \<Rightarrow> Return (None, snd (json_Unmarshal lib chunk v)))"
    and "fst (getFormat r ''Accept'') = formatXML \<Longrightarrow>
           Parse lib r v =
              (case Body r of
                 Inl read_err \<Rightarrow> Return (Some (Error500 ''failed to read body''), v)
               | Inr chunk \<Rightarrow> Return (None, snd (xml_Unmarshal lib chunk v)))"
    and "fst (getFormat r ''Accept'') = formatFORM \<Longrightarrow>
           Parse lib r v =
              (case ParseForm lib r of
                 Inl e \<Rightarrow> Return (Some (Error500 (''failed to parse body: '' @ e)), v)
               | Inr PostForm \<Rightarrow>
                   (case parseForm lib PostForm v of
                      Panic \<Rightarrow> Panic
                    | Return (err', v') \<Rightarrow> Parse_return err' v'))"
  by (simp_all add: Parse_def assms Parse_return_def Let_def formatXML_def formatJSON_def formatFORM_def
        split: prod.splits sum.splits)

text \<open>
  Claim C6, as stated: when no \<open>Content-Type\<close> value is a recognised format, \<open>Parse\<close>
  decodes the body with the format of the \<open>Accept\<close> header and does not fail on account
  of the \<open>Content-Type\<close> value. That fails when the \<open>Accept\<close> header selects FORM.
  \<open>Parse\<close> then calls \<open>r.ParseForm()\<close>, and that function reads the \<open>Content-Type\<close>
  header itself: of two requests with \<open>Accept: application/x-www-form-urlencoded\<close> and
  the same body, the one with no \<open>Content-Type\<close> is answered with no error (and its body
  is not decoded: the target is unchanged), and the one with the unrecognised
  \<open>Content-Type: text/\<close> with the error \<open>failed to parse body: mime: expected token
  after slash\<close>.
\<close>

theorem Parse_FORM_fallback_reads_Content_Type:
  "snd (getFormat \<lparr>Header = [''Accept'' \<mapsto> [''application/x-www-form-urlencoded'']],
                   Body = Inr ''Status=x''\<rparr> ''Content-Type'') = False
   \<and> snd (getFormat \<lparr>Header = [''Accept'' \<mapsto> [''application/x-www-form-urlencoded''],
                             ''Content-Type'' \<mapsto> [''text/'']],
                   Body = Inr ''Status=x''\<rparr> ''Content-Type'') = False
   \<and> (Parse marking_lib \<lparr>Header = [''Accept'' \<mapsto> [''application/x-www-form-urlencoded'']],
                          Body = Inr ''Status=x''\<rparr> (Pointer [])
        :: (unit error option \<times> string target) outcome)
     = Return (None, Pointer [])
   \<and> (Parse marking_lib \<lparr>Header = [''Accept'' \<mapsto> [''application/x-www-form-urlencoded''],
                                    ''Content-Type'' \<mapsto> [''text/'']],
                          Body = Inr ''Status=x''\<rparr> (Pointer [])
        :: (unit error option \<times> string target) outcome)
     = Return (Some (Error500 ''failed to parse body: mime: expected token after slash''), Pointer [])"
  by (simp add: Parse_def Parse_return_def getFormat_def marking_lib_def
      formatJSON_def formatXML_def formatFORM_def)

text \<open>
  Claim C6, amended. When no \<open>Content-Type\<close> value is a recognised format (the header
  is absent, or holds only other values), \<open>Parse\<close> takes the branch of the format of
  the \<open>Accept\<close> header. When that is JSON (the first recognised \<open>Accept\<close> value is
  \<open>application/json\<close>, or the header is absent or names nothing recognised) the body
  goes to the JSON unmarshaller, when it is XML to the XML unmarshaller, and the result is
  the same for any two such requests with the same \<open>Accept\<close> header and body, whatever
  their \<open>Content-Type\<close> values. When it is FORM, the result is what \<open>r.ParseForm()\<close>
  and then \<open>parseForm\<close> make of the request, its \<open>Content-Type\<close> included. The
  witness is the request with no \<open>Content-Type\<close> and \<open>Accept: application/xml\<close>: its
  body is decoded as XML, also with the unrecognised \<open>Content-Type: text/csv\<close>; and a
  request with neither header is decoded as JSON.
\<close>

theorem Parse_decodes_by_Accept:
  fixes lib :: "('d, 'x) stdlib"
  assumes "Header r ''Content-Type'' = None
         \<or> (\<exists>hs. Header r ''Content-Type'' = Some hs
              \<and> ''application/json'' \<notin> set hs \<and> ''application/xml'' \<notin> set hs
              \<and> ''application/x-www-form-urlencoded'' \<notin> set hs)"
  shows "(Header r ''Accept'' = None
          \<or> (\<exists>hs. Header r ''Accept'' = Some hs
               \<and> ''application/json'' \<notin> set hs \<and> ''application/xml'' \<notin> set hs
               \<and> ''application/x-www-form-urlencoded'' \<notin> set hs)
          \<or> (\<exists>pre post. Header r ''Accept'' = Some (pre @ ''application/json'' # post)
               \<and> ''application/xml'' \<notin> set pre \<and> ''application/x-www-form-urlencoded'' \<notin> set pre)
          \<longrightarrow> (Parse lib r v :: ('u error option \<times> 'x target) outcome) =
                (case Body r of
                   Inl read_err \<Rightarrow> Return (Some (Error500 ''failed to read body''), v)
                 | Inr chunk \<Rightarrow> Return (None, snd (json_Unmarshal lib chunk v))))
       \<and> ((\<exists>pre post. Header r ''Accept'' = Some (pre @ ''application/xml'' # post)
               \<and> ''application/json'' \<notin> set pre \<and> ''application/x-www-form-urlencoded'' \<notin> set pre)
          \<longrightarrow> (Parse lib r v :: ('u error option \<times> 'x target) outcome) =
                (case Body r of
                   Inl read_err \<Rightarrow> Return (Some (Error500 ''failed to read body''), v)
                 | Inr chunk \<Rightarrow> Return (None, snd (xml_Unmarshal lib chunk v))))
       \<and> ((\<exists>pre post. Header r ''Accept'' = Some (pre @ ''application/x-www-form-urlencoded'' # post)
               \<and> ''application/json'' \<notin> set pre \<and> ''application/xml'' \<notin> set pre)
          \<longrightarrow> (Parse lib r v :: ('u error option \<times> 'x target) outcome) =
                (case ParseForm lib r of
                   Inl e \<Rightarrow> Return (Some (Error500 (''failed to parse body: '' @ e)), v)
                 | Inr PostForm \<Rightarrow>
                     (case parseForm lib PostForm v of
                        Panic \<Rightarrow> Panic
                      | Return (err', v') \<Rightarrow> Parse_return err' v')))
       \<and> (\<forall>r'. (Header r' ''Content-Type'' = None
                 \<or> (\<exists>hs. Header r' ''Content-Type'' = Some hs
                      \<and> ''application/json'' \<notin> set hs \<and> ''application/xml'' \<notin> set hs
                      \<and> ''application/x-www-form-urlencoded'' \<notin> set hs))
               \<and> Header r' ''Accept'' = Header r ''Accept'' \<and> Body r' = Body r
               \<and> fst (getFormat r ''Accept'') \<noteq> formatFORM
             \<longrightarrow> (Parse lib r' v :: ('u error option \<times> 'x target) outcome) = Parse lib r v)"
proof -
  have ct: "getFormat r ''Content-Type'' = (formatJSON, False)"
    using assms by (rule getFormat_Content_Type_unrecognised)
  note p = Parse_not_found [where r = r and lib = lib and v = v, OF ct]
  have j: "Header r ''Accept'' = None
          \<or> (\<exists>hs. Header r ''Accept'' = Some hs
               \<and> ''application/json'' \<notin> set hs \<and> ''application/xml'' \<notin> set hs
               \<and> ''application/x-www-form-urlencoded'' \<notin> set hs)
          \<or> (\<exists>pre post. Header r ''Accept'' = Some (pre @ ''application/json'' # post)
               \<and> ''application/xml'' \<notin> set pre \<and> ''application/x-www-form-urlencoded'' \<notin> set pre)
          \<longrightarrow> (Parse lib r v :: ('u error option \<times> 'x target) outcome) =
                (case Body r of
                   Inl read_err \<Rightarrow> Return (Some (Error500 ''failed to read body''), v)
                 | Inr chunk \<Rightarrow> Return (None, snd (json_Unmarshal lib chunk v)))"
  proof
    assume a: "Header r ''Accept'' = None
          \<or> (\<exists>hs. Header r ''Accept'' = Some hs
               \<and> ''application/json'' \<notin> set hs \<and> ''application/xml'' \<notin> set hs
               \<and> ''application/x-www-form-urlencoded'' \<notin> set hs)
          \<or> (\<exists>pre post. Header r ''Accept'' = Some (pre @ ''application/json'' # post)
               \<and> ''application/xml'' \<notin> set pre \<and> ''application/x-www-form-urlencoded'' \<notin> set pre)"
    have "fst (getFormat r ''Accept'') = formatJSON"
      using a getFormat_loop_unrecognised getFormat_loop_first_JSON
      by (auto simp: getFormat_def)
    then show "(Parse lib r v :: ('u error option \<times> 'x target) outcome) =
                (case Body r of
                   Inl read_err \<Rightarrow> Return (Some (Error500 ''failed to read body''), v)
                 | Inr chunk \<Rightarrow> Return (None, snd (json_Unmarshal lib chunk v)))"
      by (rule p(1))
  qed
  have x: "(\<exists>pre post. Header r ''Accept'' = Some (pre @ ''application/xml'' # post)
               \<and> ''application/json'' \<notin> set pre \<and> ''application/x-www-form-urlencoded'' \<notin> set pre)
          \<longrightarrow> (Parse lib r v :: ('u error option \<times> 'x target) outcome) =
                (case Body r of
                   Inl read_err \<Rightarrow> Return (Some (Error500 ''failed to read body''), v)
                 | Inr chunk \<Rightarrow> Return (None, snd (xml_Unmarshal lib chunk v)))"
  proof
    assume a: "\<exists>pre post. Header r ''Accept'' = Some (pre @ ''application/xml'' # post)
               \<and> ''application/json'' \<notin> set pre \<and> ''application/x-www-form-urlencoded'' \<notin> set pre"
    have "fst (getFormat r ''Accept'') = formatXML"
      using a getFormat_loop_first_XML by (auto simp: getFormat_def)
    then show "(Parse lib r v :: ('u error option \<times> 'x target) outcome) =
                (case Body r of
                   Inl read_err \<Rightarrow> Return (Some (Error500 ''failed to read body''), v)
                 | Inr chunk \<Rightarrow> Return (None, snd (xml_Unmarshal lib chunk v)))"
      by (rule p(2))
  qed
  have f: "(\<exists>pre post. Header r ''Accept'' = Some (pre @ ''application/x-www-form-urlencoded'' # post)
               \<and> ''application/json'' \<notin> set pre \<and> ''application/xml'' \<notin> set pre)
          \<longrightarrow> (Parse lib r v :: ('u error option \<times> 'x target) outcome) =
                (case ParseForm lib r of
                   Inl e \<Rightarrow> Return (Some (Error500 (''failed to parse body: '' @ e)), v)
                 | Inr PostForm \<Rightarrow>
                     (case parseForm lib PostForm v of
                        Panic \<Rightarrow> Panic
                      | Return (err', v') \<Rightarrow> Parse_return err' v'))"
  proof
    assume a: "\<exists>pre post. Header r ''Accept'' = Some (pre @ ''application/x-www-form-urlencoded'' # post)
               \<and> ''application/json'' \<notin> set pre \<and> ''application/xml'' \<notin> set pre"
    have "fst (getFormat r ''Accept'') = formatFORM"
      using a getFormat_loop_first_FORM by (auto simp: getFormat_def)
    then show "(Parse lib r v :: ('u error option \<times> 'x target) outcome) =
                (case ParseForm lib r of
                   Inl e \<Rightarrow> Return (Some (Error500 (''failed to parse body: '' @ e)), v)
                 | Inr PostForm \<Rightarrow>
                     (case parseForm lib PostForm v of
                        Panic \<Rightarrow> Panic
                      | Return (err', v') \<Rightarrow> Parse_return err' v'))"
      by (rule p(3))
  qed
  have i: "\<forall>r'. (Header r' ''Content-Type'' = None
                 \<or> (\<exists>hs. Header r' ''Content-Type'' = Some hs
                      \<and> ''application/json'' \<notin> set hs \<and> ''application/xml'' \<notin> set hs
                      \<and> ''application/x-www-form-urlencoded'' \<notin> set hs))
               \<and> Header r' ''Accept'' = Header r ''Accept'' \<and> Body r' = Body r
               \<and> fst (getFormat r ''Accept'') \<noteq> formatFORM
             \<longrightarrow> (Parse lib r' v :: ('u error option \<times> 'x target) outcome) = Parse lib r v"
  proof (intro allI impI)
    fix r' :: Request
    assume a: "(Header r' ''Content-Type'' = None
                 \<or> (\<exists>hs. Header r' ''Content-Type'' = Some hs
                      \<and> ''application/json'' \<notin> set hs \<and> ''application/xml'' \<notin> set hs
                      \<and> ''application/x-www-form-urlencoded'' \<notin> set hs))
               \<and> Header r' ''Accept'' = Header r ''Accept'' \<and> Body r' = Body r
               \<and> fst (getFormat r ''Accept'') \<noteq> formatFORM"
    from a have ct': "getFormat r' ''Content-Type'' = (formatJSON, False)"
      by (intro getFormat_Content_Type_unrecognised) blast
    from a have acc: "getFormat r' ''Accept'' = getFormat r ''Accept''"
      by (simp add: getFormat_def)
    from a have b: "Body r' = Body r" and nf: "fst (getFormat r ''Accept'') \<noteq> formatFORM"
      by simp_all
    note p' = Parse_not_found [where r = r' and lib = lib and v = v, OF ct']
    have "fst (getFormat r ''Accept'') = formatJSON \<or> fst (getFormat r ''Accept'') = formatXML"
      using nf getFormat_loop_range by (auto simp: getFormat_def split: option.splits)
    then show "(Parse lib r' v :: ('u error option \<times> 'x target) outcome) = Parse lib r v"
    proof
      assume e: "fst (getFormat r ''Accept'') = formatJSON"
      with acc have e': "fst (getFormat r' ''Accept'') = formatJSON" by simp
      show ?thesis by (simp only: p(1) [OF e] p'(1) [OF e'] b)
    next
      assume e: "fst (getFormat r ''Accept'') = formatXML"
      with acc have e': "fst (getFormat r' ''Accept'') = formatXML" by simp
      show ?thesis by (simp only: p(2) [OF e] p'(2) [OF e'] b)
    qed
  qed
  from j x f i show ?thesis by blast
qed

theorem Parse_decodes_by_Accept_witness:
  "(Parse marking_lib \<lparr>Header = [''Accept'' \<mapsto> [''application/xml'']], Body = Inr ''<a></a>''\<rparr> (Pointer [])
        :: (unit error option \<times> string target) outcome)
     = Return (None, Pointer ''decoded as XML: <a></a>'')
   \<and> (Parse marking_lib \<lparr>Header = [''Accept'' \<mapsto> [''application/xml''], ''Content-Type'' \<mapsto> [''text/csv'']],
          Body = Inr ''<a></a>''\<rparr> (Pointer []) :: (unit error option \<times> string target) outcome)
     = Return (None, Pointer ''decoded as XML: <a></a>'')
   \<and> (Parse marking_lib \<lparr>Header = Map.empty, Body = Inr ''{}''\<rparr> (Pointer [])
        :: (unit error option \<times> string target) outcome)
     = Return (None, Pointer ''decoded as JSON: {}'')"
proof -
  let ?r = "\<lparr>Header = [''Accept'' \<mapsto> [''application/xml'']], Body = Inr ''<a></a>''\<rparr>"
  let ?r' = "\<lparr>Header = [''Accept'' \<mapsto> [''application/xml''], ''Content-Type'' \<mapsto> [''text/csv'']],
          Body = Inr ''<a></a>''\<rparr>"
  let ?q = "\<lparr>Header = Map.empty, Body = Inr ''{}''\<rparr>"
  have n: "Header ?r ''Content-Type'' = None
         \<or> (\<exists>hs. Header ?r ''Content-Type'' = Some hs
              \<and> ''application/json'' \<notin> set hs \<and> ''application/xml'' \<notin> set hs
              \<and> ''application/x-www-form-urlencoded'' \<notin> set hs)"
    by simp
  have n': "Header ?r' ''Content-Type'' = None
         \<or> (\<exists>hs. Header ?r' ''Content-Type'' = Some hs
              \<and> ''application/json'' \<notin> set hs \<and> ''application/xml'' \<notin> set hs
              \<and> ''application/x-www-form-urlencoded'' \<notin> set hs)"
    by simp
  have n0: "Header ?q ''Content-Type'' = None
         \<or> (\<exists>hs. Header ?q ''Content-Type'' = Some hs
              \<and> ''application/json'' \<notin> set hs \<and> ''application/xml'' \<notin> set hs
              \<and> ''application/x-www-form-urlencoded'' \<notin> set hs)"
    by simp
  have "Header ?r ''Accept'' = Some ([] @ ''application/xml'' # [])
      \<and> ''application/json'' \<notin> set ([] :: string list)
      \<and> ''application/x-www-form-urlencoded'' \<notin> set ([] :: string list)"
    by simp
  then have a: "\<exists>pre post. Header ?r ''Accept'' = Some (pre @ ''application/xml'' # post)
               \<and> ''application/json'' \<notin> set pre \<and> ''application/x-www-form-urlencoded'' \<notin> set pre"
    by blast
  have "Header ?r' ''Accept'' = Some ([] @ ''application/xml'' # [])
      \<and> ''application/json'' \<notin> set ([] :: string list)
      \<and> ''application/x-www-form-urlencoded'' \<notin> set ([] :: string list)"
    by simp
  then have a': "\<exists>pre post. Header ?r' ''Accept'' = Some (pre @ ''application/xml'' # post)
               \<and> ''application/json'' \<notin> set pre \<and> ''application/x-www-form-urlencoded'' \<notin> set pre"
    by blast
  have a0: "Header ?q ''Accept'' = None" by simp
  note g = Parse_decodes_by_Accept [where 'u = unit and r = ?r and lib = marking_lib and v = "Pointer []", OF n]
  note g' = Parse_decodes_by_Accept [where 'u = unit and r = ?r' and lib = marking_lib and v = "Pointer []", OF n']
  note g0 = Parse_decodes_by_Accept [where 'u = unit and r = ?q and lib = marking_lib and v = "Pointer []", OF n0]
  from g [THEN conjunct2, THEN conjunct1] a
  have h: "(Parse marking_lib ?r (Pointer []) :: (unit error option \<times> string target) outcome)
     = Return (None, Pointer ''decoded as XML: <a></a>'')"
    by (simp add: marking_lib_def)
  from g' [THEN conjunct2, THEN conjunct1] a'
  have h': "(Parse marking_lib ?r' (Pointer []) :: (unit error option \<times> string target) outcome)
     = Return (None, Pointer ''decoded as XML: <a></a>'')"
    by (simp add: marking_lib_def)
  from g0 [THEN conjunct1] a0
  have h0: "(Parse marking_lib ?q (Pointer []) :: (unit error option \<times> string target) outcome)
     = Return (None, Pointer ''decoded as JSON: {}'')"
    by (simp add: marking_lib_def)
  from h h' h0 show ?thesis by blast
qed

section \<open>The response of the handler\<close>

text \<open>
  \<open>output\<close> by format, what a successful write leaves in a fresh writer, and the two
  error paths of the handler.
\<close>

lemma output_fmt_JSON:
  "output_fmt lib w code dat formatJSON =
     (case json_Marshal lib dat of
        Inl err \<Rightarrow> (Some err, Header_Set w ''Content-Type'' ''aplication/json'')
      | Inr chunk \<Rightarrow> Write (WriteHeader (Header_Set w ''Content-Type'' ''aplication/json'') code) chunk)"
  by (simp add: output_fmt_def Let_def)

lemma output_fmt_XML:
  "output_fmt lib w code dat formatXML =
     (case xml_Marshal lib dat of
        Inl err \<Rightarrow> (Some err, Header_Set w ''Content-Type'' ''aplication/xml'')
      | Inr chunk \<Rightarrow> Write (WriteHeader (Header_Set w ''Content-Type'' ''aplication/xml'') code) chunk)"
  by (simp add: output_fmt_def formatXML_def formatJSON_def Let_def)

lemma output_fmt_FORM:
  "output_fmt lib w code dat formatFORM = (Some ''unknown output format'', w)"
  by (simp add: output_fmt_def formatFORM_def formatJSON_def formatXML_def)

lemma written_response:
  assumes "status w = None"
  shows "status (snd (Write (WriteHeader (Header_Set w k val) code) chunk)) = Some code"
    and "written (snd (Write (WriteHeader (Header_Set w k val) code) chunk)) = written w @ chunk"
    and "headers (snd (Write (WriteHeader (Header_Set w k val) code) chunk)) = (headers w)(k \<mapsto> [val])"
    and "cookies (snd (Write (WriteHeader (Header_Set w k val) code) chunk)) = cookies w"
  using assms by (simp_all add: Write_def WriteHeader_def Header_Set_def Let_def)

lemma handler_error_plain:
  assumes "fn r p = (v, Some e)" and "StatusCode e = None"
  shows "fst (handler lib fn w r p) = snd (output_fmt lib w 500 (ErrorData NewError500) (fst (getFormat r ''Accept'')))"
  using assms by (simp add: handler_def split: prod.splits)

lemma handler_error_coded:
  assumes "fn r p = (v, Some e)" and "StatusCode e = Some S"
  shows "fst (handler lib fn w r p) = snd (output_fmt lib w S (ErrorData e) (fst (getFormat r ''Accept'')))"
  using assms by (simp add: handler_def split: prod.splits)

subsection \<open>An error without a status code\<close>

lemma getFormat_Accept_sample:
  "getFormat (request_accepting hs) ''Accept'' = getFormat_loop hs"
  by (simp add: getFormat_def request_accepting_def)

text \<open>
  Claim C3, as stated: for every error without a \<open>StatusCode\<close> method the response has
  status 500 and its body is the serialization of the generic error whose message is
  \<open>an unexpected error occurred, please contact an administrator\<close>. Two things differ in
  the code. The message of \<open>NewError500\<close> is spelled \<open>occured\<close>, in the constructor and
  in its comment. And with an \<open>Accept\<close> header that selects FORM, \<open>output\<close> refuses the
  format before it writes anything: no status and no body are written, and the client
  receives the status 200 of a handler that wrote nothing.
\<close>

theorem generic_error_counterexample:
  "(NewError500 :: unit error) \<noteq> Error500 ''an unexpected error occurred, please contact an administrator''
   \<and> status (fst (handler sample_lib (controller_failing (ErrorsNew ''boom'')) newResponseWriter
         (request_accepting [''application/x-www-form-urlencoded'']) ())) = None
   \<and> written (fst (handler sample_lib (controller_failing (ErrorsNew ''boom'')) newResponseWriter
         (request_accepting [''application/x-www-form-urlencoded'']) ())) = []
   \<and> wire_status (fst (handler sample_lib (controller_failing (ErrorsNew ''boom'')) newResponseWriter
         (request_accepting [''application/x-www-form-urlencoded'']) ())) = 200"
proof -
  have f: "fst (getFormat (request_accepting [''application/x-www-form-urlencoded'']) ''Accept'') = formatFORM"
    by (simp add: getFormat_Accept_sample)
  have "fst (handler sample_lib (controller_failing (ErrorsNew ''boom'')) newResponseWriter
         (request_accepting [''application/x-www-form-urlencoded'']) ()) = newResponseWriter"
    using handler_error_plain [of "controller_failing (ErrorsNew ''boom'')"
        "request_accepting [''application/x-www-form-urlencoded'']" "()" plain_resp "ErrorsNew ''boom''"
        sample_lib newResponseWriter]
    by (simp add: f output_fmt_FORM controller_failing_def)
  then show ?thesis
    by (simp add: NewError500_def newResponseWriter_def wire_status_def)
qed

text \<open>
  Claim C3, amended. For every error without a \<open>StatusCode\<close> method, handled on a fresh
  writer: when the \<open>Accept\<close> header selects JSON or XML and the generic error marshals
  to \<open>chunk\<close>, the response has status 500 and body \<open>chunk\<close>; when it selects FORM the
  writer is left untouched; the generic error is \<open>Error500\<close> with the message
  \<open>an unexpected error occured, please contact an administrator\<close>; and the writer the
  handler leaves is the same for any two such errors, so nothing of the original error
  reaches the response.
\<close>

theorem generic_error_response:
  fixes fn :: "Request \<Rightarrow> 'p \<Rightarrow> 'a resp \<times> 'u error option"
  assumes "fn r p = (v, Some e)" and "StatusCode e = None" and "status w = None"
  shows "(fst (getFormat r ''Accept'') = formatJSON \<and> json_Marshal lib (ErrorData NewError500) = Inr chunk
          \<or> fst (getFormat r ''Accept'') = formatXML \<and> xml_Marshal lib (ErrorData NewError500) = Inr chunk
          \<longrightarrow> status (fst (handler lib fn w r p)) = Some 500
            \<and> written (fst (handler lib fn w r p)) = written w @ chunk)
       \<and> (fst (getFormat r ''Accept'') = formatFORM \<longrightarrow> fst (handler lib fn w r p) = w)
       \<and> (NewError500 :: 'u error) = Error500 ''an unexpected error occured, please contact an administrator''
       \<and> (\<forall>(fn' :: Request \<Rightarrow> 'p \<Rightarrow> 'a resp \<times> 'u error option) v' e'.
             fn' r p = (v', Some e') \<and> StatusCode e' = None
             \<longrightarrow> fst (handler lib fn' w r p) = fst (handler lib fn w r p))"
proof -
  let ?f = "fst (getFormat r ''Accept'')"
  let ?enc = "?f = formatJSON \<and> json_Marshal lib (ErrorData NewError500) = Inr chunk
          \<or> ?f = formatXML \<and> xml_Marshal lib (ErrorData NewError500) = Inr chunk"
  have h: "fst (handler lib fn w r p) = snd (output_fmt lib w 500 (ErrorData NewError500) ?f)"
    using assms(1,2) by (rule handler_error_plain)
  have s: "?enc \<longrightarrow> status (snd (output_fmt lib w 500 (ErrorData NewError500) ?f)) = Some 500"
    using written_response(1) [OF assms(3)]
    by (auto simp: output_fmt_JSON output_fmt_XML)
  have b: "?enc \<longrightarrow> written (snd (output_fmt lib w 500 (ErrorData NewError500) ?f)) = written w @ chunk"
    using written_response(2) [OF assms(3)]
    by (auto simp: output_fmt_JSON output_fmt_XML)
  have n: "?f = formatFORM \<longrightarrow> fst (handler lib fn w r p) = w"
    using h by (simp add: output_fmt_FORM)
  have i: "\<forall>(fn' :: Request \<Rightarrow> 'p \<Rightarrow> 'a resp \<times> 'u error option) v' e'.
             fn' r p = (v', Some e') \<and> StatusCode e' = None
             \<longrightarrow> fst (handler lib fn' w r p) = fst (handler lib fn w r p)"
  proof (intro allI impI)
    fix fn' :: "Request \<Rightarrow> 'p \<Rightarrow> 'a resp \<times> 'u error option" and v' e'
    assume a: "fn' r p = (v', Some e') \<and> StatusCode e' = None"
    from a have a1: "fn' r p = (v', Some e')" and a2: "StatusCode e' = None" by simp_all
    have "fst (handler lib fn' w r p) = snd (output_fmt lib w 500 (ErrorData NewError500) ?f)"
      using a1 a2 by (rule handler_error_plain)
    with h show "fst (handler lib fn' w r p) = fst (handler lib fn w r p)" by simp
  qed
  have m: "(NewError500 :: 'u error) = Error500 ''an unexpected error occured, please contact an administrator''"
    by (simp add: NewError500_def)
  from s b have sb: "?enc \<longrightarrow> status (fst (handler lib fn w r p)) = Some 500
            \<and> written (fst (handler lib fn w r p)) = written w @ chunk"
    using h by simp
  from sb n m i show ?thesis by blast
qed

theorem generic_error_response_witness:
  "status (fst (handler sample_lib (controller_failing (ErrorsNew ''boom'')) newResponseWriter
         (request_accepting [''application/json'']) ())) = Some 500
   \<and> written (fst (handler sample_lib (controller_failing (ErrorsNew ''boom'')) newResponseWriter
         (request_accepting [''application/json'']) ()))
       = ''json:an unexpected error occured, please contact an administrator''
   \<and> fst (handler sample_lib (controller_failing (ErrorsNew ''another text'')) newResponseWriter
         (request_accepting [''application/json'']) ())
     = fst (handler sample_lib (controller_failing (ErrorsNew ''boom'')) newResponseWriter
         (request_accepting [''application/json'']) ())"
proof -
  have f: "fst (getFormat (request_accepting [''application/json'']) ''Accept'') = formatJSON"
    by (simp add: getFormat_Accept_sample)
  have m: "json_Marshal sample_lib (ErrorData NewError500)
      = Inr ''json:an unexpected error occured, please contact an administrator''"
    by (simp add: sample_lib_def render_def NewError500_def)
  have c: "controller_failing (ErrorsNew ''boom'') (request_accepting [''application/json'']) () = (plain_resp, Some (ErrorsNew ''boom''))"
    by (simp add: controller_failing_def)
  have c': "controller_failing (ErrorsNew ''another text'') (request_accepting [''application/json'']) ()
      = (plain_resp, Some (ErrorsNew ''another text'')) \<and> StatusCode (ErrorsNew ''another text'' :: unit error) = None"
    by (simp add: controller_failing_def)
  have s: "status newResponseWriter = None" and e: "written newResponseWriter = []"
    by (simp_all add: newResponseWriter_def)
  have n: "StatusCode (ErrorsNew ''boom'' :: unit error) = None" by simp
  note g = generic_error_response [where fn = "controller_failing (ErrorsNew ''boom'')"
      and r = "request_accepting [''application/json'']" and p = "()" and v = plain_resp
      and e = "ErrorsNew ''boom''" and w = newResponseWriter and lib = sample_lib
      and chunk = "''json:an unexpected error occured, please contact an administrator''",
      OF c n s]
  from g f m have g1: "status (fst (handler sample_lib (controller_failing (ErrorsNew ''boom'')) newResponseWriter
         (request_accepting [''application/json'']) ())) = Some 500"
    by blast
  from g f m have "written (fst (handler sample_lib (controller_failing (ErrorsNew ''boom'')) newResponseWriter
         (request_accepting [''application/json'']) ()))
       = written newResponseWriter @ ''json:an unexpected error occured, please contact an administrator''"
    by blast
  with e have g2: "written (fst (handler sample_lib (controller_failing (ErrorsNew ''boom'')) newResponseWriter
         (request_accepting [''application/json'']) ()))
       = ''json:an unexpected error occured, please contact an administrator''"
    by simp
  from g have q: "\<forall>(fn' :: Request \<Rightarrow> unit \<Rightarrow> string resp \<times> unit error option) v' e'.
      fn' (request_accepting [''application/json'']) () = (v', Some e') \<and> StatusCode e' = None
      \<longrightarrow> fst (handler sample_lib fn' newResponseWriter (request_accepting [''application/json'']) ())
        = fst (handler sample_lib (controller_failing (ErrorsNew ''boom'')) newResponseWriter
            (request_accepting [''application/json'']) ())"
    by blast
  have g3: "fst (handler sample_lib (controller_failing (ErrorsNew ''another text'')) newResponseWriter
         (request_accepting [''application/json'']) ())
     = fst (handler sample_lib (controller_failing (ErrorsNew ''boom'')) newResponseWriter
         (request_accepting [''application/json'']) ())"
    using q [rule_format, of "controller_failing (ErrorsNew ''another text'')" plain_resp
        "ErrorsNew ''another text''"] c'
    by blast
  from g1 g2 g3 show ?thesis by blast
qed

subsection \<open>An error with a status code\<close>

text \<open>
  Claim C4, as stated: for every error whose \<open>StatusCode()\<close> is \<open>S\<close> the response has
  status \<open>S\<close> and its body is the serialization of the error. With an \<open>Accept\<close> header
  that selects FORM nothing is written: the error of the example has status code 403, and
  the client receives status 200 and no body.
\<close>

theorem coded_error_counterexample:
  "StatusCode (UserError (Some 403) ''oops'' None () :: unit error) = Some 403
   \<and> status (fst (handler sample_lib (controller_failing (UserError (Some 403) ''oops'' None ())) newResponseWriter
         (request_accepting [''application/x-www-form-urlencoded'']) ())) = None
   \<and> written (fst (handler sample_lib (controller_failing (UserError (Some 403) ''oops'' None ())) newResponseWriter
         (request_accepting [''application/x-www-form-urlencoded'']) ())) = []
   \<and> wire_status (fst (handler sample_lib (controller_failing (UserError (Some 403) ''oops'' None ())) newResponseWriter
         (request_accepting [''application/x-www-form-urlencoded'']) ())) = 200"
proof -
  have f: "fst (getFormat (request_accepting [''application/x-www-form-urlencoded'']) ''Accept'') = formatFORM"
    by (simp add: getFormat_Accept_sample)
  have "fst (handler sample_lib (controller_failing (UserError (Some 403) ''oops'' None ())) newResponseWriter
         (request_accepting [''application/x-www-form-urlencoded'']) ()) = newResponseWriter"
    using handler_error_coded [of "controller_failing (UserError (Some 403) ''oops'' None ())"
        "request_accepting [''application/x-www-form-urlencoded'']" "()" plain_resp
        "UserError (Some 403) ''oops'' None ()" 403 sample_lib newResponseWriter]
    by (simp add: f output_fmt_FORM controller_failing_def)
  then show ?thesis
    by (simp add: newResponseWriter_def wire_status_def)
qed

text \<open>
  Claim C4, amended. For every error whose \<open>StatusCode()\<close> is \<open>S\<close>, handled on a fresh
  writer: when the \<open>Accept\<close> header selects JSON, or XML, and the error value itself
  marshals to \<open>chunk\<close> in that format, the response has status \<open>S\<close>, body \<open>chunk\<close> and
  the content type the code sets for the format; when the header selects FORM the writer
  is left untouched.
\<close>

theorem coded_error_response:
  fixes fn :: "Request \<Rightarrow> 'p \<Rightarrow> 'a resp \<times> 'u error option"
  assumes "fn r p = (v, Some e)" and "StatusCode e = Some S" and "status w = None"
  shows "(fst (getFormat r ''Accept'') = formatJSON \<and> json_Marshal lib (ErrorData e) = Inr chunk
          \<longrightarrow> status (fst (handler lib fn w r p)) = Some S
            \<and> written (fst (handler lib fn w r p)) = written w @ chunk
            \<and> headers (fst (handler lib fn w r p)) ''Content-Type'' = Some [''aplication/json''])
       \<and> (fst (getFormat r ''Accept'') = formatXML \<and> xml_Marshal lib (ErrorData e) = Inr chunk
          \<longrightarrow> status (fst (handler lib fn w r p)) = Some S
            \<and> written (fst (handler lib fn w r p)) = written w @ chunk
            \<and> headers (fst (handler lib fn w r p)) ''Content-Type'' = Some [''aplication/xml''])
       \<and> (fst (getFormat r ''Accept'') = formatFORM \<longrightarrow> fst (handler lib fn w r p) = w)"
proof -
  let ?f = "fst (getFormat r ''Accept'')"
  have h: "fst (handler lib fn w r p) = snd (output_fmt lib w S (ErrorData e) ?f)"
    using assms(1,2) by (rule handler_error_coded)
  have j: "?f = formatJSON \<and> json_Marshal lib (ErrorData e) = Inr chunk
          \<longrightarrow> status (fst (handler lib fn w r p)) = Some S
            \<and> written (fst (handler lib fn w r p)) = written w @ chunk
            \<and> headers (fst (handler lib fn w r p)) ''Content-Type'' = Some [''aplication/json'']"
    using h written_response [OF assms(3)] by (auto simp: output_fmt_JSON)
  have x: "?f = formatXML \<and> xml_Marshal lib (ErrorData e) = Inr chunk
          \<longrightarrow> status (fst (handler lib fn w r p)) = Some S
            \<and> written (fst (handler lib fn w r p)) = written w @ chunk
            \<and> headers (fst (handler lib fn w r p)) ''Content-Type'' = Some [''aplication/xml'']"
    using h written_response [OF assms(3)] by (auto simp: output_fmt_XML)
  have n: "?f = formatFORM \<longrightarrow> fst (handler lib fn w r p) = w"
    using h by (simp add: output_fmt_FORM)
  from j x n show ?thesis by blast
qed

theorem coded_error_response_witness:
  "status (fst (handler sample_lib (controller_failing (UserError (Some 403) ''oops'' None ())) newResponseWriter
         (request_accepting [''application/xml'']) ())) = Some 403
   \<and> written (fst (handler sample_lib (controller_failing (UserError (Some 403) ''oops'' None ())) newResponseWriter
         (request_accepting [''application/xml'']) ())) = ''xml:oops''"
proof -
  have f: "fst (getFormat (request_accepting [''application/xml'']) ''Accept'') = formatXML"
    by (simp add: getFormat_Accept_sample)
  have m: "xml_Marshal sample_lib (ErrorData (UserError (Some 403) ''oops'' None ())) = Inr ''xml:oops''"
    by (simp add: sample_lib_def render_def)
  have c: "controller_failing (UserError (Some 403) ''oops'' None ()) (request_accepting [''application/xml'']) ()
      = (plain_resp, Some (UserError (Some 403) ''oops'' None ()))"
    by (simp add: controller_failing_def)
  have s: "status newResponseWriter = None" and e: "written newResponseWriter = []"
    by (simp_all add: newResponseWriter_def)
  have n: "StatusCode (UserError (Some 403) ''oops'' None () :: unit error) = Some 403" by simp
  note g = coded_error_response [where fn = "controller_failing (UserError (Some 403) ''oops'' None ())"
      and r = "request_accepting [''application/xml'']" and p = "()" and v = plain_resp
      and e = "UserError (Some 403) ''oops'' None ()" and S = 403 and w = newResponseWriter
      and lib = sample_lib and chunk = "''xml:oops''", OF c n s]
  from g f m have "status (fst (handler sample_lib (controller_failing (UserError (Some 403) ''oops'' None ())) newResponseWriter
         (request_accepting [''application/xml'']) ())) = Some 403
     \<and> written (fst (handler sample_lib (controller_failing (UserError (Some 403) ''oops'' None ())) newResponseWriter
         (request_accepting [''application/xml'']) ())) = written newResponseWriter @ ''xml:oops''"
    by blast
  with e show ?thesis by simp
qed

subsection \<open>A success value\<close>

text \<open>
  What the cookie loop, \<open>Header().Add\<close> and the two ways of writing change in the
  writer, and what they leave alone.
\<close>

lemma setCookies_loop_cookies:
  "cookies (setCookies_loop cs names w) = cookies w @ map (cookie_of cs) names"
  by (induction names arbitrary: w) (simp_all add: SetCookie_def)

lemma setCookies_loop_frame:
  "headers (setCookies_loop cs names w) = headers w"
  "status (setCookies_loop cs names w) = status w"
  "written (setCookies_loop cs names w) = written w"
  "write_error (setCookies_loop cs names w) = write_error w"
  by (induction names arbitrary: w) (simp_all add: SetCookie_def)

lemma Header_Add_frame:
  "cookies (Header_Add w k val) = cookies w"
  "status (Header_Add w k val) = status w"
  "written (Header_Add w k val) = written w"
  "write_error (Header_Add w k val) = write_error w"
  "k' \<noteq> k \<Longrightarrow> headers (Header_Add w k val) k' = headers w k'"
  by (simp_all add: Header_Add_def)

lemma outputContentType_fresh:
  assumes "status w = None"
  shows "status (snd (outputContentType w code dat format)) = Some code"
    and "written (snd (outputContentType w code dat format)) = written w @ dat"
    and "headers (snd (outputContentType w code dat format)) = (headers w)(''Content-Type'' \<mapsto> [format])"
    and "cookies (snd (outputContentType w code dat format)) = cookies w"
  using assms written_response [of w "''Content-Type''" format code dat]
  by (simp_all add: outputContentType_def Let_def)

lemma output_fmt_cookies:
  "cookies (snd (output_fmt lib w code dat f)) = cookies w"
  by (simp add: output_fmt_def Let_def Write_def WriteHeader_def Header_Set_def split: sum.splits)


lemma output_fmt_status:
  assumes "status w = None"
  shows "status (snd (output_fmt lib w code dat f)) = Some code
       \<or> status (snd (output_fmt lib w code dat f)) = None
         \<and> written (snd (output_fmt lib w code dat f)) = written w"
  using assms
  by (simp add: output_fmt_def Let_def Write_def WriteHeader_def Header_Set_def split: sum.splits)

text \<open>The success path of the handler, with the local variables of the source.\<close>

lemma handler_success:
  assumes "fn r p = (v, None)"
  shows "fst (handler lib fn w r p) =
     (let statusCode = (case as_Resp v of Some (code, loc) \<Rightarrow> if code \<noteq> 0 then code else 200 | None \<Rightarrow> 200);
          location = (case as_Resp v of Some (code, loc) \<Rightarrow> if code \<noteq> 0 then loc else [] | None \<Rightarrow> []);
          w1 = (case as_ICookieSetter v of
                  Some (Some cs) \<Rightarrow> setCookies_loop cs (map fst cs) w
                | Some None \<Rightarrow> w
                | None \<Rightarrow> w);
          w2 = (if location \<noteq> [] then Header_Add w1 ''Location'' location else w1)
      in case as_RespCType v of
           Some (ctype, dat) \<Rightarrow> snd (outputContentType w2 statusCode dat ctype)
         | None \<Rightarrow> snd (output_fmt lib w2 statusCode (RespData v) (fst (getFormat r ''Accept''))))"
  using assms
  by (simp add: handler_def Let_def split: prod.splits option.splits)

lemma outputContentType_frame:
  "cookies (snd (outputContentType w code dat format)) = cookies w"
  "k \<noteq> ''Content-Type'' \<Longrightarrow> headers (snd (outputContentType w code dat format)) k = headers w k"
  by (simp_all add: outputContentType_def Let_def Write_def WriteHeader_def Header_Set_def)

text \<open>
  Claim C5. For every success value that has no \<open>Resp\<close> capability, or whose
  \<open>StatusCode()\<close> is zero, the status of the response is 200: the client receives 200;
  the handler calls \<open>WriteHeader\<close> with 200 or, when the encoding fails, with nothing and
  writes no body (the server then answers 200 by itself); and it does call
  \<open>WriteHeader(200)\<close> whenever the value has a raw content type or marshals in the
  negotiated JSON or XML format.
\<close>

theorem default_status_200:
  fixes fn :: "Request \<Rightarrow> 'p \<Rightarrow> 'a resp \<times> 'u error option"
  assumes "fn r p = (v, None)"
    and "as_Resp v = None \<or> (\<exists>loc. as_Resp v = Some (0, loc))"
    and "status w = None"
  shows "wire_status (fst (handler lib fn w r p)) = 200
       \<and> (status (fst (handler lib fn w r p)) = Some 200
          \<or> status (fst (handler lib fn w r p)) = None
            \<and> written (fst (handler lib fn w r p)) = written w)
       \<and> (as_RespCType v \<noteq> None
          \<or> fst (getFormat r ''Accept'') = formatJSON \<and> (\<exists>chunk. json_Marshal lib (RespData v) = Inr chunk)
          \<or> fst (getFormat r ''Accept'') = formatXML \<and> (\<exists>chunk. xml_Marshal lib (RespData v) = Inr chunk)
          \<longrightarrow> status (fst (handler lib fn w r p)) = Some 200)"
proof -
  define w1 where "w1 = (case as_ICookieSetter v of
                  Some (Some cs) \<Rightarrow> setCookies_loop cs (map fst cs) w
                | Some None \<Rightarrow> w
                | None \<Rightarrow> w)"
  have w1: "status w1 = None" "written w1 = written w"
    using assms(3) by (simp_all add: w1_def setCookies_loop_frame split: option.splits)
  have h: "fst (handler lib fn w r p) =
      (case as_RespCType v of
         Some (ctype, dat) \<Rightarrow> snd (outputContentType w1 200 dat ctype)
       | None \<Rightarrow> snd (output_fmt lib w1 200 (RespData v) (fst (getFormat r ''Accept''))))"
  proof -
    have sc: "(case as_Resp v of Some (code, loc) \<Rightarrow> if code \<noteq> 0 then code else 200 | None \<Rightarrow> 200) = 200"
      using assms(2) by auto
    have lc: "(case as_Resp v of Some (code, loc) \<Rightarrow> if code \<noteq> 0 then loc else [] | None \<Rightarrow> []) = []"
      using assms(2) by auto
    show ?thesis
      unfolding w1_def
      using handler_success [where fn = fn and r = r and p = p and v = v and lib = lib and w = w, OF assms(1)]
      by (simp add: Let_def sc lc split: option.splits prod.splits)
  qed
  have a: "status (fst (handler lib fn w r p)) = Some 200
          \<or> status (fst (handler lib fn w r p)) = None
            \<and> written (fst (handler lib fn w r p)) = written w"
  proof (cases "as_RespCType v")
    case None
    then show ?thesis
      using h output_fmt_status [OF w1(1), of lib 200 "RespData v" "fst (getFormat r ''Accept'')"] w1(2)
      by simp
  next
    case (Some cd)
    then show ?thesis
      using h outputContentType_fresh(1) [OF w1(1)] by (cases cd) simp
  qed
  have b: "wire_status (fst (handler lib fn w r p)) = 200"
    using a by (auto simp: wire_status_def)
  have c: "as_RespCType v \<noteq> None
          \<or> fst (getFormat r ''Accept'') = formatJSON \<and> (\<exists>chunk. json_Marshal lib (RespData v) = Inr chunk)
          \<or> fst (getFormat r ''Accept'') = formatXML \<and> (\<exists>chunk. xml_Marshal lib (RespData v) = Inr chunk)
          \<longrightarrow> status (fst (handler lib fn w r p)) = Some 200"
  proof (cases "as_RespCType v")
    case None
    then show ?thesis
      using h written_response(1) [OF w1(1)]
      by (auto simp: output_fmt_JSON output_fmt_XML)
  next
    case (Some cd)
    then show ?thesis
      using h outputContentType_fresh(1) [OF w1(1)] by (cases cd) simp
  qed
  from a b c show ?thesis by blast
qed

theorem default_status_200_witness:
  "wire_status (fst (handler sample_lib (controller_returning plain_resp) newResponseWriter
      (request_accepting [''application/json'']) ())) = 200
   \<and> status (fst (handler sample_lib (controller_returning plain_resp) newResponseWriter
      (request_accepting [''application/json'']) ())) = Some 200
   \<and> wire_status (fst (handler sample_lib
        (controller_returning (plain_resp\<lparr>as_Resp := Some (0, ''/elsewhere'')\<rparr>)) newResponseWriter
        (request_accepting [''application/json'']) ())) = 200"
proof -
  have c: "controller_returning plain_resp (request_accepting [''application/json'']) () = (plain_resp, None)"
    by (simp add: controller_returning_def)
  have c0: "controller_returning (plain_resp\<lparr>as_Resp := Some (0, ''/elsewhere'')\<rparr>)
      (request_accepting [''application/json'']) () = (plain_resp\<lparr>as_Resp := Some (0, ''/elsewhere'')\<rparr>, None)"
    by (simp add: controller_returning_def)
  have a: "as_Resp plain_resp = None \<or> (\<exists>loc. as_Resp plain_resp = Some (0, loc))"
    by (simp add: plain_resp_def)
  have a0: "as_Resp (plain_resp\<lparr>as_Resp := Some (0, ''/elsewhere'')\<rparr>) = None
      \<or> (\<exists>loc. as_Resp (plain_resp\<lparr>as_Resp := Some (0, ''/elsewhere'')\<rparr>) = Some (0, loc))"
    by simp
  have s: "status newResponseWriter = None" by (simp add: newResponseWriter_def)
  have f: "fst (getFormat (request_accepting [''application/json'']) ''Accept'') = formatJSON"
    by (simp add: getFormat_Accept_sample)
  have m: "\<exists>chunk. json_Marshal sample_lib (RespData plain_resp) = Inr chunk"
    by (simp add: sample_lib_def)
  note g = default_status_200 [where fn = "controller_returning plain_resp"
      and r = "request_accepting [''application/json'']" and p = "()" and v = plain_resp
      and w = newResponseWriter and lib = sample_lib, OF c a s]
  note g0 = default_status_200 [where fn = "controller_returning (plain_resp\<lparr>as_Resp := Some (0, ''/elsewhere'')\<rparr>)"
      and r = "request_accepting [''application/json'']" and p = "()"
      and v = "plain_resp\<lparr>as_Resp := Some (0, ''/elsewhere'')\<rparr>"
      and w = newResponseWriter and lib = sample_lib, OF c0 a0 s]
  from g f m g0 show ?thesis by blast
qed

subsection \<open>Cookies\<close>

text \<open>
  The cookies of the response are those of the writer followed by one cookie for each
  name of the map, whatever is written afterwards.
\<close>

lemma handler_cookies:
  assumes "fn r p = (v, None)"
  shows "cookies (fst (handler lib fn w r p)) =
     cookies w @ (case as_ICookieSetter v of
                    Some (Some cs) \<Rightarrow> map (cookie_of cs) (map fst cs)
                  | Some None \<Rightarrow> []
                  | None \<Rightarrow> [])"
  using handler_success [where fn = fn and r = r and p = p and v = v and lib = lib and w = w, OF assms]
  by (simp add: Let_def outputContentType_frame output_fmt_cookies Header_Add_frame
      setCookies_loop_cookies split: option.splits prod.splits)

lemma cookie_of_entry:
  assumes "map_of cs name = Some val"
  shows "cookie_of cs name \<in> set (map (cookie_of cs) (map fst cs))"
    and "cookie_of cs name =
      (if val = [] then \<lparr>Name = name, Value = ''nil'', Path = ''/'', MaxAge = - 1\<rparr>
       else \<lparr>Name = name, Value = val, Path = ''/'', MaxAge = 86400\<rparr>)"
proof -
  from assms have "(name, val) \<in> set cs" by (rule map_of_SomeD)
  then have "name \<in> set (map fst cs)" by force
  then show "cookie_of cs name \<in> set (map (cookie_of cs) (map fst cs))" by auto
  show "cookie_of cs name =
      (if val = [] then \<lparr>Name = name, Value = ''nil'', Path = ''/'', MaxAge = - 1\<rparr>
       else \<lparr>Name = name, Value = val, Path = ''/'', MaxAge = 86400\<rparr>)"
    using assms by (simp add: cookie_of_def map_index_def)
qed

lemma cookie_of_Value: "Value (cookie_of cs name) \<noteq> []"
  by (simp add: cookie_of_def)

text \<open>
  Claim C7. For a success value with a cookie map, and every entry of the map: when the
  value of the entry is empty, a cookie of that name with path \<open>/\<close> and \<open>MaxAge\<close> -1 is
  handed to \<open>http.SetCookie\<close>; when it is not empty, the cookie of that name with that
  value, path \<open>/\<close> and \<open>MaxAge\<close> 86400.
\<close>

theorem cookie_emission:
  fixes fn :: "Request \<Rightarrow> 'p \<Rightarrow> 'a resp \<times> 'u error option"
  assumes "fn r p = (v, None)"
    and "as_ICookieSetter v = Some (Some cs)"
    and "map_of cs name = Some val"
  shows "(val = [] \<longrightarrow>
            (\<exists>c \<in> set (cookies (fst (handler lib fn w r p))).
               Name c = name \<and> Path c = ''/'' \<and> MaxAge c = - 1))
       \<and> (val \<noteq> [] \<longrightarrow>
            \<lparr>Name = name, Value = val, Path = ''/'', MaxAge = 86400\<rparr>
              \<in> set (cookies (fst (handler lib fn w r p))))"
proof -
  have c: "cookies (fst (handler lib fn w r p)) = cookies w @ map (cookie_of cs) (map fst cs)"
    using handler_cookies [where fn = fn and r = r and p = p and v = v and lib = lib and w = w, OF assms(1)]
      assms(2) by simp
  have m: "cookie_of cs name \<in> set (cookies (fst (handler lib fn w r p)))"
    using c cookie_of_entry(1) [OF assms(3)] by simp
  show ?thesis
  proof (cases "val = []")
    case True
    with cookie_of_entry(2) [OF assms(3)]
    have "Name (cookie_of cs name) = name \<and> Path (cookie_of cs name) = ''/'' \<and> MaxAge (cookie_of cs name) = - 1"
      by simp
    with m True show ?thesis by blast
  next
    case False
    with cookie_of_entry(2) [OF assms(3)] m show ?thesis by simp
  qed
qed

theorem cookie_emission_witness:
  "\<lparr>Name = ''session'', Value = ''abc'', Path = ''/'', MaxAge = 86400\<rparr>
     \<in> set (cookies (fst (handler sample_lib (controller_returning cookie_resp) newResponseWriter
          (request_accepting [''application/json'']) ())))
   \<and> (\<exists>c \<in> set (cookies (fst (handler sample_lib (controller_returning cookie_resp) newResponseWriter
          (request_accepting [''application/json'']) ()))).
         Name c = ''old'' \<and> Path c = ''/'' \<and> MaxAge c = - 1)"
proof -
  have c: "controller_returning cookie_resp (request_accepting [''application/json'']) () = (cookie_resp, None)"
    by (simp add: controller_returning_def)
  have a: "as_ICookieSetter cookie_resp = Some (Some [(''session'', ''abc''), (''old'', [])])"
    by (simp add: cookie_resp_def plain_resp_def)
  have m1: "map_of [(''session'', ''abc''), (''old'', [])] ''session'' = Some ''abc''" by simp
  have m2: "map_of [(''session'', ''abc''), (''old'', [])] ''old'' = Some []" by simp
  note g1 = cookie_emission [where fn = "controller_returning cookie_resp"
      and r = "request_accepting [''application/json'']" and p = "()" and v = cookie_resp
      and lib = sample_lib and w = newResponseWriter, OF c a m1]
  note g2 = cookie_emission [where fn = "controller_returning cookie_resp"
      and r = "request_accepting [''application/json'']" and p = "()" and v = cookie_resp
      and lib = sample_lib and w = newResponseWriter, OF c a m2]
  from g1 have h1: "\<lparr>Name = ''session'', Value = ''abc'', Path = ''/'', MaxAge = 86400\<rparr>
     \<in> set (cookies (fst (handler sample_lib (controller_returning cookie_resp) newResponseWriter
          (request_accepting [''application/json'']) ())))"
    by simp
  from g2 have h2: "\<exists>c \<in> set (cookies (fst (handler sample_lib (controller_returning cookie_resp) newResponseWriter
          (request_accepting [''application/json'']) ()))).
         Name c = ''old'' \<and> Path c = ''/'' \<and> MaxAge c = - 1"
    by simp
  from h1 h2 show ?thesis by blast
qed

text \<open>
  Claim C10. The cookie that deletes an entry with an empty value carries the value
  \<open>nil\<close> (and \<open>MaxAge\<close> -1); no cookie the handler adds has an empty value.
\<close>

theorem deletion_cookie_value_nil:
  fixes fn :: "Request \<Rightarrow> 'p \<Rightarrow> 'a resp \<times> 'u error option"
  assumes "fn r p = (v, None)"
    and "as_ICookieSetter v = Some (Some cs)"
    and "map_of cs name = Some []"
  shows "\<lparr>Name = name, Value = ''nil'', Path = ''/'', MaxAge = - 1\<rparr>
           \<in> set (cookies (fst (handler lib fn w r p)))
       \<and> (\<forall>c \<in> set (cookies (fst (handler lib fn w r p))) - set (cookies w). Value c \<noteq> [])"
proof -
  have c: "cookies (fst (handler lib fn w r p)) = cookies w @ map (cookie_of cs) (map fst cs)"
    using handler_cookies [where fn = fn and r = r and p = p and v = v and lib = lib and w = w, OF assms(1)]
      assms(2) by simp
  have a: "\<lparr>Name = name, Value = ''nil'', Path = ''/'', MaxAge = - 1\<rparr>
           \<in> set (cookies (fst (handler lib fn w r p)))"
    using c cookie_of_entry [OF assms(3)] by simp
  have b: "\<forall>c \<in> set (cookies (fst (handler lib fn w r p))) - set (cookies w). Value c \<noteq> []"
    using c cookie_of_Value by auto
  from a b show ?thesis by blast
qed

theorem deletion_cookie_value_nil_witness:
  "\<lparr>Name = ''old'', Value = ''nil'', Path = ''/'', MaxAge = - 1\<rparr>
     \<in> set (cookies (fst (handler sample_lib (controller_returning cookie_resp) newResponseWriter
          (request_accepting [''application/json'']) ())))"
proof -
  have c: "controller_returning cookie_resp (request_accepting [''application/json'']) () = (cookie_resp, None)"
    by (simp add: controller_returning_def)
  have a: "as_ICookieSetter cookie_resp = Some (Some [(''session'', ''abc''), (''old'', [])])"
    by (simp add: cookie_resp_def plain_resp_def)
  have m2: "map_of [(''session'', ''abc''), (''old'', [])] ''old'' = Some []" by simp
  note g = deletion_cookie_value_nil [where fn = "controller_returning cookie_resp"
      and r = "request_accepting [''application/json'']" and p = "()" and v = cookie_resp
      and lib = sample_lib and w = newResponseWriter, OF c a m2]
  from g show ?thesis by blast
qed

subsection \<open>The raw content type\<close>

text \<open>
  For a value with a raw content type the handler neither reads the negotiated format
  nor calls a marshaller.
\<close>

lemma handler_raw:
  assumes "fn r p = (v, None)" and "as_RespCType v = Some (ctype, dat)"
  shows "handler lib fn w r p =
     (let statusCode = (case as_Resp v of Some (code, loc) \<Rightarrow> if code \<noteq> 0 then code else 200 | None \<Rightarrow> 200);
          location = (case as_Resp v of Some (code, loc) \<Rightarrow> if code \<noteq> 0 then loc else [] | None \<Rightarrow> []);
          w1 = (case as_ICookieSetter v of
                  Some (Some cs) \<Rightarrow> setCookies_loop cs (map fst cs) w
                | Some None \<Rightarrow> w
                | None \<Rightarrow> w);
          w2 = (if location \<noteq> [] then Header_Add w1 ''Location'' location else w1)
      in (snd (outputContentType w2 statusCode dat ctype),
          log_failed ''error while writing data:'' (fst (outputContentType w2 statusCode dat ctype))))"
  using assms
  by (simp add: handler_def Let_def split: prod.splits option.splits)

text \<open>
  Claim C8. For a success value with the raw content type \<open>C\<close> and the bytes \<open>D\<close>, the
  handler writes exactly \<open>D\<close> and sets the \<open>Content-Type\<close> header to exactly \<open>C\<close>;
  the whole result is the same for every request on which the controller returns that
  value (so for every \<open>Accept\<close> header) and for every marshaller.
\<close>

theorem raw_content_type_bypass:
  fixes fn :: "Request \<Rightarrow> 'p \<Rightarrow> 'a resp \<times> 'u error option"
    and lib :: "(('u, 'a) data, 'x) stdlib"
  assumes "fn r p = (v, None)" and "as_RespCType v = Some (C, D)"
  shows "written (fst (handler lib fn w r p)) = written w @ D
       \<and> headers (fst (handler lib fn w r p)) ''Content-Type'' = Some [C]
       \<and> (\<forall>r' (lib' :: (('u, 'a) data, 'x) stdlib).
            fn r' p = (v, None) \<longrightarrow> handler lib' fn w r' p = handler lib fn w r p)"
proof -
  note h = handler_raw [where fn = fn and r = r and p = p and v = v and ctype = C and dat = D
      and w = w, OF assms]
  have a: "written (fst (handler lib fn w r p)) = written w @ D"
    by (simp add: h [of lib] Let_def outputContentType_def Write_def WriteHeader_def Header_Set_def
        Header_Add_frame setCookies_loop_frame split: option.splits)
  have b: "headers (fst (handler lib fn w r p)) ''Content-Type'' = Some [C]"
    by (simp add: h [of lib] Let_def outputContentType_def Write_def WriteHeader_def Header_Set_def)
  have c: "\<forall>r' (lib' :: (('u, 'a) data, 'x) stdlib).
            fn r' p = (v, None) \<longrightarrow> handler lib' fn w r' p = handler lib fn w r p"
  proof (intro allI impI)
    fix r' and lib' :: "(('u, 'a) data, 'x) stdlib"
    assume e: "fn r' p = (v, None)"
    note h' = handler_raw [where fn = fn and r = r' and p = p and v = v and ctype = C and dat = D
      and w = w and lib = lib', OF e assms(2)]
    show "handler lib' fn w r' p = handler lib fn w r p"
      by (simp only: h' h [of lib])
  qed
  from a b c show ?thesis by blast
qed

theorem raw_content_type_bypass_witness:
  "written (fst (handler sample_lib (controller_returning raw_resp) newResponseWriter
      (request_accepting [''application/json'']) ())) = ''hello''
   \<and> headers (fst (handler sample_lib (controller_returning raw_resp) newResponseWriter
      (request_accepting [''application/json'']) ())) ''Content-Type'' = Some [''text/plain'']
   \<and> handler sample_lib (controller_returning raw_resp) newResponseWriter
        (request_accepting [''application/xml'']) ()
     = handler sample_lib (controller_returning raw_resp) newResponseWriter
        (request_accepting [''application/json'']) ()"
proof -
  have c: "controller_returning raw_resp (request_accepting [''application/json'']) () = (raw_resp, None)"
    by (simp add: controller_returning_def)
  have c': "controller_returning raw_resp (request_accepting [''application/xml'']) () = (raw_resp, None)"
    by (simp add: controller_returning_def)
  have a: "as_RespCType raw_resp = Some (''text/plain'', ''hello'')"
    by (simp add: raw_resp_def)
  have e: "written newResponseWriter = []" by (simp add: newResponseWriter_def)
  note g = raw_content_type_bypass [where fn = "controller_returning raw_resp"
      and r = "request_accepting [''application/json'']" and p = "()" and v = raw_resp
      and lib = sample_lib and w = newResponseWriter and C = "''text/plain''" and D = "''hello''",
      OF c a]
  from g e have g1: "written (fst (handler sample_lib (controller_returning raw_resp) newResponseWriter
      (request_accepting [''application/json'']) ())) = ''hello''"
    by simp
  from g have g2: "headers (fst (handler sample_lib (controller_returning raw_resp) newResponseWriter
      (request_accepting [''application/json'']) ())) ''Content-Type'' = Some [''text/plain'']"
    by blast
  from g have q: "\<forall>r' (lib' :: ((unit, string) data, unit) stdlib).
      controller_returning raw_resp r' () = (raw_resp, None)
      \<longrightarrow> handler lib' (controller_returning raw_resp) newResponseWriter r' ()
        = handler sample_lib (controller_returning raw_resp) newResponseWriter
            (request_accepting [''application/json'']) ()"
    by blast
  have g3: "handler sample_lib (controller_returning raw_resp) newResponseWriter
        (request_accepting [''application/xml'']) ()
     = handler sample_lib (controller_returning raw_resp) newResponseWriter
        (request_accepting [''application/json'']) ()"
    using q [rule_format, of "request_accepting [''application/xml'']" sample_lib] c' by blast
  from g1 g2 g3 show ?thesis by blast
qed




end
